theory Spec2Isabelle
  imports Main "HOL-Library.Sublist"
begin

section \<open>The bootstrap loader \<^verbatim>\<open>1_data_ingest.py\<close>\<close>

text \<open>
  The script is a straight line of calls into the query engine's client API with one
  conditional. It is embedded as a state-and-exception computation over a \<open>world\<close>:
  the process environment, the remote storage, the local filesystem, the default
  namespace of the catalog and the timeline of effects of the current run. Every call
  that can raise returns \<open>Inl\<close> of the error together with the world as it is at
  that moment, so the effects of the calls before it stay visible.
\<close>

subsection \<open>Data\<close>

datatype dtype = StringType | IntegerType | DoubleType | BooleanType

type_synonym row = "string option list"

record dataset =
  columns :: "(string \<times> dtype) list"
  cells :: "row list"
  partitions :: nat

text \<open>A \<open>frame\<close> is the result of an SQL statement: column names and rows of text.\<close>

record frame =
  fcolumns :: "string list"
  frows :: "string list list"

record csv_export =
  exp_data :: dataset
  exp_header :: bool

record table =
  tbl_format :: string
  tbl_data :: dataset

record session =
  app_name :: string
  conf :: "(string \<times> string option) list"

datatype printed =
    PrintedSchema "(string \<times> dtype) list"
  | PrintedFrame frame
  | PrintedLine string

datatype event =
    EnvGet string
  | SessionGetOrCreate string string "string option"
  | EnvLookup string
  | CsvRead string bool char string
  | CsvWrite string string bool
  | Sql string
  | TableSave string string string
  | Stdout printed

datatype error =
    KeyError string
  | SessionError
  | PathNotFound string
  | PermissionDenied string
  | PathAlreadyExists string
  | CatalogAccessDenied
  | NoSuchDatabase string
  | NoSuchTable string
  | TableAlreadyExists string
  | IllegalArgument string
  | ParseError string

record world =
  environ :: "string \<rightharpoonup> string"
  engine_reachable :: bool
  remote_files :: "string \<rightharpoonup> string"
  extra_splits :: nat
  local_dirs :: "string \<rightharpoonup> csv_export list"
  local_writable :: bool
  default_tables :: "(string \<times> table) list"
  catalog_readable :: bool
  catalog_writable :: bool
  trace :: "event list"

type_synonym 'a action = "world \<Rightarrow> (error + 'a) \<times> world"

subsection \<open>Sequencing\<close>

text \<open>
  Statement after statement: the second runs in the world the first left, and a raise
  ends the run there (the script has no \<^verbatim>\<open>try\<close>), keeping that world.
\<close>

definition and_then :: "'a action \<Rightarrow> ('a \<Rightarrow> 'b action) \<Rightarrow> 'b action" where
  "and_then m f w = (case m w of (Inl e, w') \<Rightarrow> (Inl e, w') | (Inr a, w') \<Rightarrow> f a w')"

definition done_with :: "'a \<Rightarrow> 'a action" where
  "done_with a w = (Inr a, w)"

definition log :: "event \<Rightarrow> world \<Rightarrow> world" where
  "log e w = w\<lparr>trace := trace w @ [e]\<rparr>"

fun printed_of :: "event \<Rightarrow> printed list" where
  "printed_of (Stdout p) = [p]"
| "printed_of _ = []"

definition stdout :: "world \<Rightarrow> printed list" where
  "stdout w = concat (map printed_of (trace w))"

subsection \<open>The process environment\<close>

text \<open>\<^verbatim>\<open>os.getenv(k)\<close> gives \<^verbatim>\<open>None\<close> for a missing name; \<^verbatim>\<open>os.environ[k]\<close> raises.\<close>

definition os_getenv :: "string \<Rightarrow> (string option) action" where
  "os_getenv k w = (Inr (environ w k), log (EnvGet k) w)"

definition os_environ_getitem :: "string \<Rightarrow> string action" where
  "os_environ_getitem k w =
     (case environ w k of
        None \<Rightarrow> (Inl (KeyError k), log (EnvLookup k) w)
      | Some v \<Rightarrow> (Inr v, log (EnvLookup k) w))"

definition py_print :: "string \<Rightarrow> unit action" where
  "py_print s w = (Inr (), log (Stdout (PrintedLine s)) w)"

subsection \<open>The engine's client interface\<close>

text \<open>
  Modelled from the spec: the query engine and the metastore are external services, not
  part of the repository; the script reaches them through session acquisition, CSV read,
  CSV write, SQL statements and table creation. The definitions of this subsection give
  each of these calls the behaviour the specification states for it (sections 3, 4.1, 6
  and 7): the failures it lists, header row, delimiter and null token for the read, the
  save modes for the writes, and the listing of the table names of the namespace
  \<open>default\<close>.
\<close>

text \<open>
  Modelled from the spec: session acquisition (\<^verbatim>\<open>getOrCreate\<close> of the engine's session
  builder). It fails when the engine cannot be reached and otherwise gives a session holding
  the application name and the one configuration entry, whose value may be absent.
\<close>

definition getOrCreate :: "string \<Rightarrow> string \<Rightarrow> string option \<Rightarrow> session action" where
  "getOrCreate name key val w =
     (if engine_reachable w
      then (Inr \<lparr>app_name = name, conf = [(key, val)]\<rparr>, log (SessionGetOrCreate name key val) w)
      else (Inl SessionError, log (SessionGetOrCreate name key val) w))"

text \<open>
  Modelled from the spec: the engine's CSV reader. Lines are split at the separator, the
  first line names the columns when the header option is on, every column is a string
  column, and a field equal to the null token is read as null. A file yields at least one
  input partition.
\<close>

fun split_on :: "char \<Rightarrow> string \<Rightarrow> string list" where
  "split_on c [] = [[]]"
| "split_on c (x # xs) =
     (if x = c then [] # split_on c xs
      else (case split_on c xs of [] \<Rightarrow> [[x]] | f # fs \<Rightarrow> (x # f) # fs))"

definition csv_lines :: "string \<Rightarrow> string list" where
  "csv_lines text = filter (\<lambda>l. l \<noteq> []) (split_on (CHR 0x0A) text)"

definition parse_cell :: "string \<Rightarrow> string \<Rightarrow> string option" where
  "parse_cell nullValue tok = (if tok = nullValue then None else Some tok)"

definition parse_row :: "char \<Rightarrow> string \<Rightarrow> string \<Rightarrow> row" where
  "parse_row sep nullValue line = map (parse_cell nullValue) (split_on sep line)"

fun digit_char :: "nat \<Rightarrow> char" where
  "digit_char n = char_of (48 + n mod 10)"

fun string_of_nat :: "nat \<Rightarrow> string" where
  "string_of_nat n = (if n < 10 then [digit_char n] else string_of_nat (n div 10) @ [digit_char n])"

definition parse_csv :: "bool \<Rightarrow> char \<Rightarrow> string \<Rightarrow> nat \<Rightarrow> string \<Rightarrow> dataset" where
  "parse_csv header sep nullValue splits text =
     (let ls = csv_lines text;
          names = (if header then (case ls of [] \<Rightarrow> [] | h # _ \<Rightarrow> split_on sep h)
                   else (case ls of [] \<Rightarrow> []
                         | h # _ \<Rightarrow> map (\<lambda>i. ''_c'' @ string_of_nat i) [0 ..< length (split_on sep h)]));
          body = (if header then drop 1 ls else ls)
      in \<lparr>columns = map (\<lambda>n. (n, StringType)) names,
          cells = map (parse_row sep nullValue) body,
          partitions = Suc splits\<rparr>)"

definition read_csv :: "session \<Rightarrow> string \<Rightarrow> bool \<Rightarrow> char \<Rightarrow> string \<Rightarrow> dataset action" where
  "read_csv spark path header sep nullValue w =
     (case remote_files w path of
        None \<Rightarrow> (Inl (PathNotFound path), log (CsvRead path header sep nullValue) w)
      | Some text \<Rightarrow>
          (Inr (parse_csv header sep nullValue (extra_splits w) text),
           log (CsvRead path header sep nullValue) w))"

definition printSchema :: "dataset \<Rightarrow> unit action" where
  "printSchema d w = (Inr (), log (Stdout (PrintedSchema (columns d))) w)"

definition coalesce :: "nat \<Rightarrow> dataset \<Rightarrow> dataset" where
  "coalesce n d = d\<lparr>partitions := min n (partitions d)\<rparr>"

text \<open>
  Modelled from the spec: the engine's CSV writer on the local filesystem. A directory
  holds the exports written to it; overwrite mode replaces whatever it held.
\<close>

definition write_csv :: "dataset \<Rightarrow> string \<Rightarrow> string \<Rightarrow> bool \<Rightarrow> unit action" where
  "write_csv d path mode header w =
     (let w' = log (CsvWrite path mode header) w;
          e = \<lparr>exp_data = d, exp_header = header\<rparr>;
          old = local_dirs w path
      in if \<not> local_writable w then (Inl (PermissionDenied path), w')
         else if mode = ''overwrite''
           then (Inr (), w'\<lparr>local_dirs := (local_dirs w')(path \<mapsto> [e])\<rparr>)
         else if mode = ''append''
           then (Inr (), w'\<lparr>local_dirs := (local_dirs w')(path \<mapsto> (case old of None \<Rightarrow> [] | Some es \<Rightarrow> es) @ [e])\<rparr>)
         else if mode = ''ignore''
           then (case old of
                   None \<Rightarrow> (Inr (), w'\<lparr>local_dirs := (local_dirs w')(path \<mapsto> [e])\<rparr>)
                 | Some _ \<Rightarrow> (Inr (), w'))
         else if mode = ''error'' \<or> mode = ''errorifexists''
           then (case old of
                   None \<Rightarrow> (Inr (), w'\<lparr>local_dirs := (local_dirs w')(path \<mapsto> [e])\<rparr>)
                 | Some _ \<Rightarrow> (Inl (PathAlreadyExists path), w'))
         else (Inl (IllegalArgument mode), w'))"

text \<open>
  Modelled from the spec: table creation in the catalog under a qualified name; overwrite
  mode replaces a table of the same name.
\<close>

definition split_qualified :: "string \<Rightarrow> string \<times> string" where
  "split_qualified s =
     (if CHR ''.'' \<in> set s
      then (takeWhile (\<lambda>c. c \<noteq> CHR ''.'') s, drop 1 (dropWhile (\<lambda>c. c \<noteq> CHR ''.'') s))
      else (''default'', s))"

definition table_names :: "world \<Rightarrow> string list" where
  "table_names w = map fst (default_tables w)"

definition saveAsTable :: "dataset \<Rightarrow> string \<Rightarrow> string \<Rightarrow> string \<Rightarrow> unit action" where
  "saveAsTable d fmt mode name w =
     (let w' = log (TableSave name fmt mode) w;
          db = fst (split_qualified name);
          tn = snd (split_qualified name);
          t = \<lparr>tbl_format = fmt, tbl_data = d\<rparr>;
          others = filter (\<lambda>p. fst p \<noteq> tn) (default_tables w);
          created = w'\<lparr>default_tables := others @ [(tn, t)]\<rparr>
      in if \<not> catalog_writable w then (Inl CatalogAccessDenied, w')
         else if db \<noteq> ''default'' then (Inl (NoSuchDatabase db), w')
         else if mode = ''overwrite'' then (Inr (), created)
         else if mode = ''append''
           then (case map_of (default_tables w) tn of
                   None \<Rightarrow> (Inr (), created)
                 | Some old \<Rightarrow>
                     (Inr (), w'\<lparr>default_tables := others @
                        [(tn, old\<lparr>tbl_data := (tbl_data old)\<lparr>cells := cells (tbl_data old) @ cells d\<rparr>\<rparr>)]\<rparr>))
         else if mode = ''ignore''
           then (if tn \<in> set (table_names w) then (Inr (), w') else (Inr (), created))
         else if mode = ''error'' \<or> mode = ''errorifexists''
           then (if tn \<in> set (table_names w) then (Inl (TableAlreadyExists tn), w')
                 else (Inr (), created))
         else (Inl (IllegalArgument mode), w'))"

fun dtype_name :: "dtype \<Rightarrow> string" where
  "dtype_name StringType = ''string''"
| "dtype_name IntegerType = ''int''"
| "dtype_name DoubleType = ''double''"
| "dtype_name BooleanType = ''boolean''"

definition tables_frame :: "(string \<times> table) list \<Rightarrow> frame" where
  "tables_frame ts =
     \<lparr>fcolumns = [''database'', ''tableName'', ''isTemporary''],
      frows = map (\<lambda>p. [''default'', fst p, ''false'']) ts\<rparr>"

definition describe_frame :: "table \<Rightarrow> frame" where
  "describe_frame t =
     \<lparr>fcolumns = [''col_name'', ''data_type'', ''comment''],
      frows = map (\<lambda>c. [fst c, dtype_name (snd c), []]) (columns (tbl_data t))
              @ [[''Provider'', tbl_format t, []]]\<rparr>"

text \<open>
  Modelled from the spec: the engine's SQL interface, for the three statements the script
  issues; each fails when the catalog cannot be queried.
\<close>

definition sql :: "session \<Rightarrow> string \<Rightarrow> frame action" where
  "sql spark q w =
     (let w' = log (Sql q) w
      in if \<not> catalog_readable w then (Inl CatalogAccessDenied, w')
         else if q = ''show databases''
           then (Inr \<lparr>fcolumns = [''databaseName''], frows = [[''default'']]\<rparr>, w')
         else if q = ''show tables in default''
           then (Inr (tables_frame (default_tables w)), w')
         else if q = ''describe formatted default.hollow_processed''
           then (case map_of (default_tables w) ''hollow_processed'' of
                   None \<Rightarrow> (Inl (NoSuchTable ''default.hollow_processed''), w')
                 | Some t \<Rightarrow> (Inr (describe_frame t), w'))
         else (Inl (ParseError q), w'))"

definition show_frame :: "frame \<Rightarrow> unit action" where
  "show_frame f w = (Inr (), log (Stdout (PrintedFrame f)) w)"

definition toPandas :: "frame \<Rightarrow> frame action" where
  "toPandas f w = (Inr f, w)"

text \<open>\<^verbatim>\<open>frame[name]\<close> of the collected frame: the values of one column, or a key error.\<close>

definition getitem_column :: "frame \<Rightarrow> string \<Rightarrow> (string list) action" where
  "getitem_column f name w =
     (if name \<notin> set (fcolumns f) then (Inl (KeyError name), w)
      else (case those (map (\<lambda>r. map_of (zip (fcolumns f) r) name) (frows f)) of
              None \<Rightarrow> (Inl (KeyError name), w)
            | Some vs \<Rightarrow> (Inr vs, w)))"

subsection \<open>The script\<close>

text \<open>
  Lines 23 to 39: the session, configured with \<^verbatim>\<open>os.getenv('STORAGE')\<close>; then the
  bracketed lookup of \<^verbatim>\<open>STORAGE\<close>; then the CSV read. The value is the dataset
  \<^verbatim>\<open>hollow_processed\<close>.
\<close>

definition load_hollow_processed :: "(session \<times> dataset) action" where
  "load_hollow_processed =
     and_then (os_getenv ''STORAGE'') (\<lambda>cfg.
     and_then (getOrCreate ''PythonSQL'' ''spark.yarn.access.hadoopFileSystems'' cfg) (\<lambda>spark.
     and_then (os_environ_getitem ''STORAGE'') (\<lambda>storage.
     and_then (read_csv spark (storage @ ''/datalake/data/content_metadata/hollow_processed.csv'')
                 True (CHR '','') ''NA'') (\<lambda>hollow_processed.
     done_with (spark, hollow_processed)))))"

text \<open>
  Lines 45 to 77: schema diagnostic, local export, the two listings, the existence check
  with the conditional creation, and the \<^verbatim>\<open>describe formatted\<close> statement, whose
  collected frame is the value of an expression statement and is dropped.
\<close>

definition store_hollow_processed :: "session \<Rightarrow> dataset \<Rightarrow> unit action" where
  "store_hollow_processed spark hollow_processed =
     and_then (printSchema hollow_processed) (\<lambda>_.
     and_then (write_csv (coalesce 1 hollow_processed) ''file:/home/cdsw/raw/hollow-processed/''
                 ''overwrite'' True) (\<lambda>_.
     and_then (sql spark ''show databases'') (\<lambda>dbs.
     and_then (show_frame dbs) (\<lambda>_.
     and_then (sql spark ''show tables in default'') (\<lambda>tbls.
     and_then (show_frame tbls) (\<lambda>_.
     and_then (sql spark ''show tables in default'') (\<lambda>listing.
     and_then (toPandas listing) (\<lambda>pdf.
     and_then (getitem_column pdf ''tableName'') (\<lambda>names.
     and_then (if ''hollow_processed'' \<notin> set names
               then and_then (py_print ''creating the hollow_processed database'') (\<lambda>_.
                    saveAsTable hollow_processed ''parquet'' ''overwrite'' ''default.hollow_processed'')
               else done_with ()) (\<lambda>_.
     and_then (sql spark ''describe formatted default.hollow_processed'') (\<lambda>described.
     and_then (toPandas described) (\<lambda>_.
     done_with ()))))))))))))"

definition main :: "unit action" where
  "main = and_then load_hollow_processed (\<lambda>p. store_hollow_processed (fst p) (snd p))"

text \<open>A run is one process: its timeline starts empty, the rest of the world is as found.\<close>

definition run :: "unit action" where
  "run w = main (w\<lparr>trace := []\<rparr>)"

subsection \<open>Vocabulary of the properties\<close>

definition source_path :: "string \<Rightarrow> string" where
  "source_path s = s @ ''/datalake/data/content_metadata/hollow_processed.csv''"

definition export_path :: string where
  "export_path = ''file:/home/cdsw/raw/hollow-processed/''"

text \<open>What a run with storage root and source text at hand loads, exports and registers.\<close>

definition hp_session :: "string option \<Rightarrow> session" where
  "hp_session cfg =
     \<lparr>app_name = ''PythonSQL'', conf = [(''spark.yarn.access.hadoopFileSystems'', cfg)]\<rparr>"

definition hp_dataset :: "world \<Rightarrow> string \<Rightarrow> dataset" where
  "hp_dataset w text = parse_csv True (CHR '','') ''NA'' (extra_splits w) text"

definition hp_export :: "dataset \<Rightarrow> csv_export" where
  "hp_export d = \<lparr>exp_data = coalesce 1 d, exp_header = True\<rparr>"

definition hp_table :: "dataset \<Rightarrow> table" where
  "hp_table d = \<lparr>tbl_format = ''parquet'', tbl_data = d\<rparr>"

text \<open>The fields of the data rows of the source text: every line after the header, split at commas.\<close>

definition source_records :: "string \<Rightarrow> string list list" where
  "source_records src = map (split_on (CHR '','')) (drop 1 (csv_lines src))"

text \<open>The timeline of a run, piece by piece.\<close>

definition tr_session :: "string option \<Rightarrow> event list" where
  "tr_session cfg =
     [EnvGet ''STORAGE'',
      SessionGetOrCreate ''PythonSQL'' ''spark.yarn.access.hadoopFileSystems'' cfg]"

definition tr_load :: "string \<Rightarrow> event list" where
  "tr_load s = tr_session (Some s) @
     [EnvLookup ''STORAGE'', CsvRead (source_path s) True (CHR '','') ''NA'']"

definition tr_export :: "string \<Rightarrow> dataset \<Rightarrow> event list" where
  "tr_export s d = tr_load s @
     [Stdout (PrintedSchema (columns d)), CsvWrite export_path ''overwrite'' True]"

definition tr_listing :: "string \<Rightarrow> dataset \<Rightarrow> (string \<times> table) list \<Rightarrow> event list" where
  "tr_listing s d ts = tr_export s d @
     [Sql ''show databases'',
      Stdout (PrintedFrame \<lparr>fcolumns = [''databaseName''], frows = [[''default'']]\<rparr>),
      Sql ''show tables in default'',
      Stdout (PrintedFrame (tables_frame ts)),
      Sql ''show tables in default'']"

definition tr_create :: "event list" where
  "tr_create =
     [Stdout (PrintedLine ''creating the hollow_processed database''),
      TableSave ''default.hollow_processed'' ''parquet'' ''overwrite'']"

definition tr_describe :: "event list" where
  "tr_describe = [Sql ''describe formatted default.hollow_processed'']"

fun is_csv_read :: "event \<Rightarrow> bool" where
  "is_csv_read (CsvRead _ _ _ _) = True"
| "is_csv_read _ = False"

fun is_local_write :: "event \<Rightarrow> bool" where
  "is_local_write (CsvWrite _ _ _) = True"
| "is_local_write _ = False"

fun is_catalog_write :: "event \<Rightarrow> bool" where
  "is_catalog_write (TableSave _ _ _) = True"
| "is_catalog_write _ = False"



datatype stage =
    StorageRootResolution
  | SessionAcquisition
  | CsvLoad
  | Diagnostic
  | LocalExport
  | CatalogQuery
  | TableCreation

fun stage_of :: "event \<Rightarrow> stage" where
  "stage_of (EnvGet _) = StorageRootResolution"
| "stage_of (SessionGetOrCreate _ _ _) = SessionAcquisition"
| "stage_of (EnvLookup _) = StorageRootResolution"
| "stage_of (CsvRead _ _ _ _) = CsvLoad"
| "stage_of (CsvWrite _ _ _) = LocalExport"
| "stage_of (Sql _) = CatalogQuery"
| "stage_of (TableSave _ _ _) = TableCreation"
| "stage_of (Stdout _) = Diagnostic"

text \<open>
  The stages of a complete run, by whether the table name was found in the listing:
  the environment is read for the session's configuration, the session is acquired, the
  environment is looked up again (the raising access), the CSV is loaded, the schema is
  printed, the local export is written, the databases and the tables are listed and
  printed, the table names are queried, the table is created if the name is absent
  (after a printed line), and the formatted description is queried.
\<close>

definition stages :: "bool \<Rightarrow> stage list" where
  "stages present =
     [StorageRootResolution, SessionAcquisition, StorageRootResolution, CsvLoad, Diagnostic,
      LocalExport, CatalogQuery, Diagnostic, CatalogQuery, Diagnostic, CatalogQuery]
     @ (if present then [] else [Diagnostic, TableCreation])
     @ [CatalogQuery]"


text \<open>
  Repeated runs: before each one the source file holds the next text of the list (the
  same text again when the file is unchanged).
\<close>

definition put_source :: "string \<Rightarrow> string \<Rightarrow> world \<Rightarrow> world" where
  "put_source s text w = w\<lparr>remote_files := (remote_files w)(source_path s \<mapsto> text)\<rparr>"

fun run_seq :: "string \<Rightarrow> string list \<Rightarrow> world \<Rightarrow> world" where
  "run_seq s [] w = w"
| "run_seq s (text # texts) w = run_seq s texts (snd (run (put_source s text w)))"

subsection \<open>Example worlds\<close>

definition csv0 :: string where
  "csv0 = ''title,year'' @ [CHR 0x0A] @ ''Alien,1979'' @ [CHR 0x0A] @ ''Solaris,NA'' @ [CHR 0x0A]"

definition csv1 :: string where
  "csv1 = ''title,year'' @ [CHR 0x0A] @ ''Stalker,1979'' @ [CHR 0x0A]"

definition world_fresh :: world where
  "world_fresh =
     \<lparr>environ = [''STORAGE'' \<mapsto> ''s3a://lake''],
      engine_reachable = True,
      remote_files = [''s3a://lake/datalake/data/content_metadata/hollow_processed.csv'' \<mapsto> csv0],
      extra_splits = 2,
      local_dirs = Map.empty,
      local_writable = True,
      default_tables = [],
      catalog_readable = True,
      catalog_writable = True,
      trace = []\<rparr>"

definition other_table :: table where
  "other_table =
     \<lparr>tbl_format = ''orc'',
      tbl_data = \<lparr>columns = [(''id'', IntegerType)], cells = [[Some ''7'']], partitions = 1\<rparr>\<rparr>"

definition world_bootstrapped :: world where
  "world_bootstrapped = world_fresh\<lparr>default_tables := [(''hollow_processed'', other_table)]\<rparr>"

definition world_unset :: world where
  "world_unset = world_fresh\<lparr>environ := Map.empty\<rparr>"

definition world_locked :: world where
  "world_locked = world_fresh\<lparr>catalog_writable := False\<rparr>"

definition world_offline :: world where
  "world_offline = world_unset\<lparr>engine_reachable := False\<rparr>"

section \<open>Symbolic execution\<close>

subsection \<open>The calls, one outcome at a time\<close>

lemmas tr_defs =
  tr_session_def tr_load_def tr_export_def tr_listing_def tr_create_def tr_describe_def

lemma those_map_Some: "those (map (\<lambda>x. Some (f x)) xs) = Some (map f xs)"
  by (induction xs) simp_all

lemma getitem_tableName:
  "getitem_column (tables_frame ts) ''tableName'' w = (Inr (map fst ts), w)"
  by (simp add: getitem_column_def tables_frame_def those_map_Some o_def)

lemma filter_absent: "n \<notin> fst ` set ts \<Longrightarrow> filter (\<lambda>p. fst p \<noteq> n) ts = ts"
  by (induction ts) auto

lemma map_of_present: "n \<in> fst ` set ts \<Longrightarrow> \<exists>t. map_of ts n = Some t"
  by (cases "map_of ts n") (auto simp: map_of_eq_None_iff)

lemma map_of_created: "map_of (filter (\<lambda>p. fst p \<noteq> n) ts @ [(n, t)]) n = Some t"
  by (induction ts) auto

lemma split_qualified_hp:
  "split_qualified ''default.hollow_processed'' = (''default'', ''hollow_processed'')"
  by (simp add: split_qualified_def)

lemma sql_denied:
  "\<not> catalog_readable w \<Longrightarrow> sql spark q w = (Inl CatalogAccessDenied, log (Sql q) w)"
  by (simp add: sql_def)

lemma sql_show_databases:
  "catalog_readable w \<Longrightarrow>
   sql spark ''show databases'' w =
     (Inr \<lparr>fcolumns = [''databaseName''], frows = [[''default'']]\<rparr>,
      log (Sql ''show databases'') w)"
  by (simp add: sql_def)

lemma sql_show_tables:
  "catalog_readable w \<Longrightarrow>
   sql spark ''show tables in default'' w =
     (Inr (tables_frame (default_tables w)), log (Sql ''show tables in default'') w)"
  by (simp add: sql_def)

lemma sql_describe:
  "catalog_readable w \<Longrightarrow> map_of (default_tables w) ''hollow_processed'' = Some t \<Longrightarrow>
   sql spark ''describe formatted default.hollow_processed'' w =
     (Inr (describe_frame t), log (Sql ''describe formatted default.hollow_processed'') w)"
  by (simp add: sql_def)

lemma write_csv_denied:
  "\<not> local_writable w \<Longrightarrow>
   write_csv d path mode header w =
     (Inl (PermissionDenied path), log (CsvWrite path mode header) w)"
  by (simp add: write_csv_def)

lemma write_csv_overwrite:
  "local_writable w \<Longrightarrow>
   write_csv d path ''overwrite'' header w =
     (Inr (), (log (CsvWrite path ''overwrite'' header) w)
        \<lparr>local_dirs := (local_dirs w)(path \<mapsto> [\<lparr>exp_data = d, exp_header = header\<rparr>])\<rparr>)"
  by (simp add: write_csv_def log_def)

lemma saveAsTable_denied:
  "\<not> catalog_writable w \<Longrightarrow>
   saveAsTable d fmt mode name w = (Inl CatalogAccessDenied, log (TableSave name fmt mode) w)"
  by (simp add: saveAsTable_def)

lemma saveAsTable_overwrite_hp:
  "catalog_writable w \<Longrightarrow>
   saveAsTable d fmt ''overwrite'' ''default.hollow_processed'' w =
     (Inr (), (log (TableSave ''default.hollow_processed'' fmt ''overwrite'') w)
        \<lparr>default_tables := filter (\<lambda>p. fst p \<noteq> ''hollow_processed'') (default_tables w)
            @ [(''hollow_processed'', \<lparr>tbl_format = fmt, tbl_data = d\<rparr>)]\<rparr>)"
  by (simp add: saveAsTable_def split_qualified_hp log_def Let_def)

lemma log_fields [simp]:
  "environ (log e w) = environ w"
  "engine_reachable (log e w) = engine_reachable w"
  "remote_files (log e w) = remote_files w"
  "extra_splits (log e w) = extra_splits w"
  "local_dirs (log e w) = local_dirs w"
  "local_writable (log e w) = local_writable w"
  "default_tables (log e w) = default_tables w"
  "catalog_readable (log e w) = catalog_readable w"
  "catalog_writable (log e w) = catalog_writable w"
  "trace (log e w) = trace w @ [e]"
  by (simp_all add: log_def)

subsection \<open>Lines 23 to 39\<close>

lemma load_no_engine:
  "\<not> engine_reachable w \<Longrightarrow>
   load_hollow_processed w =
     (Inl SessionError, w\<lparr>trace := trace w @ tr_session (environ w ''STORAGE'')\<rparr>)"
  by (simp add: load_hollow_processed_def and_then_def os_getenv_def getOrCreate_def
      log_def tr_defs)

lemma load_unset:
  "engine_reachable w \<Longrightarrow> environ w ''STORAGE'' = None \<Longrightarrow>
   load_hollow_processed w =
     (Inl (KeyError ''STORAGE''),
      w\<lparr>trace := trace w @ tr_session None @ [EnvLookup ''STORAGE'']\<rparr>)"
  by (simp add: load_hollow_processed_def and_then_def os_getenv_def getOrCreate_def
      os_environ_getitem_def log_def tr_defs)

lemma load_missing:
  "engine_reachable w \<Longrightarrow> environ w ''STORAGE'' = Some s \<Longrightarrow>
   remote_files w (source_path s) = None \<Longrightarrow>
   load_hollow_processed w =
     (Inl (PathNotFound (source_path s)), w\<lparr>trace := trace w @ tr_load s\<rparr>)"
  by (simp add: load_hollow_processed_def and_then_def os_getenv_def getOrCreate_def
      os_environ_getitem_def read_csv_def log_def tr_defs source_path_def)

lemma load_ok:
  "engine_reachable w \<Longrightarrow> environ w ''STORAGE'' = Some s \<Longrightarrow>
   remote_files w (source_path s) = Some text \<Longrightarrow>
   load_hollow_processed w =
     (Inr (hp_session (Some s), hp_dataset w text), w\<lparr>trace := trace w @ tr_load s\<rparr>)"
  by (simp add: load_hollow_processed_def and_then_def os_getenv_def getOrCreate_def
      os_environ_getitem_def read_csv_def log_def tr_defs source_path_def done_with_def
      hp_session_def hp_dataset_def)

subsection \<open>Lines 45 to 77\<close>

lemma store_unwritable:
  "\<not> local_writable w \<Longrightarrow>
   store_hollow_processed spark d w =
     (Inl (PermissionDenied export_path),
      w\<lparr>trace := trace w @
          [Stdout (PrintedSchema (columns d)), CsvWrite export_path ''overwrite'' True]\<rparr>)"
  by (simp add: store_hollow_processed_def and_then_def printSchema_def write_csv_denied
      export_path_def log_def)

lemma store_unreadable:
  "local_writable w \<Longrightarrow> \<not> catalog_readable w \<Longrightarrow>
   store_hollow_processed spark d w =
     (Inl CatalogAccessDenied,
      w\<lparr>trace := trace w @
          [Stdout (PrintedSchema (columns d)), CsvWrite export_path ''overwrite'' True,
           Sql ''show databases''],
        local_dirs := (local_dirs w)(export_path \<mapsto> [hp_export d])\<rparr>)"
  by (simp add: store_hollow_processed_def and_then_def printSchema_def write_csv_overwrite
      sql_denied export_path_def hp_export_def log_def)

lemma store_present:
  assumes "local_writable w" "catalog_readable w" "''hollow_processed'' \<in> set (table_names w)"
  shows "store_hollow_processed spark d w =
     (Inr (),
      w\<lparr>trace := trace w @
          [Stdout (PrintedSchema (columns d)), CsvWrite export_path ''overwrite'' True,
           Sql ''show databases'',
           Stdout (PrintedFrame \<lparr>fcolumns = [''databaseName''], frows = [[''default'']]\<rparr>),
           Sql ''show tables in default'',
           Stdout (PrintedFrame (tables_frame (default_tables w))),
           Sql ''show tables in default''] @ tr_describe,
        local_dirs := (local_dirs w)(export_path \<mapsto> [hp_export d])\<rparr>)"
proof -
  obtain t where t: "map_of (default_tables w) ''hollow_processed'' = Some t"
    using assms(3) map_of_present[of "''hollow_processed''" "default_tables w"]
    by (auto simp: table_names_def)
  show ?thesis
    using assms t
    by (simp add: store_hollow_processed_def and_then_def printSchema_def write_csv_overwrite
        sql_show_databases sql_show_tables sql_describe show_frame_def toPandas_def
        getitem_tableName done_with_def table_names_def export_path_def hp_export_def
        tr_defs log_def)
qed

lemma store_uncreatable:
  "local_writable w \<Longrightarrow> catalog_readable w \<Longrightarrow>
   ''hollow_processed'' \<notin> set (table_names w) \<Longrightarrow> \<not> catalog_writable w \<Longrightarrow>
   store_hollow_processed spark d w =
     (Inl CatalogAccessDenied,
      w\<lparr>trace := trace w @
          [Stdout (PrintedSchema (columns d)), CsvWrite export_path ''overwrite'' True,
           Sql ''show databases'',
           Stdout (PrintedFrame \<lparr>fcolumns = [''databaseName''], frows = [[''default'']]\<rparr>),
           Sql ''show tables in default'',
           Stdout (PrintedFrame (tables_frame (default_tables w))),
           Sql ''show tables in default''] @ tr_create,
        local_dirs := (local_dirs w)(export_path \<mapsto> [hp_export d])\<rparr>)"
  by (simp add: store_hollow_processed_def and_then_def printSchema_def write_csv_overwrite
      sql_show_databases sql_show_tables show_frame_def toPandas_def getitem_tableName
      py_print_def saveAsTable_denied table_names_def export_path_def hp_export_def
      tr_defs log_def)

lemma store_absent:
  assumes "local_writable w" "catalog_readable w"
    "''hollow_processed'' \<notin> set (table_names w)" "catalog_writable w"
  shows "store_hollow_processed spark d w =
     (Inr (),
      w\<lparr>trace := trace w @
          [Stdout (PrintedSchema (columns d)), CsvWrite export_path ''overwrite'' True,
           Sql ''show databases'',
           Stdout (PrintedFrame \<lparr>fcolumns = [''databaseName''], frows = [[''default'']]\<rparr>),
           Sql ''show tables in default'',
           Stdout (PrintedFrame (tables_frame (default_tables w))),
           Sql ''show tables in default''] @ tr_create @ tr_describe,
        local_dirs := (local_dirs w)(export_path \<mapsto> [hp_export d]),
        default_tables := default_tables w @ [(''hollow_processed'', hp_table d)]\<rparr>)"
proof -
  have f: "filter (\<lambda>p. fst p \<noteq> ''hollow_processed'') (default_tables w) = default_tables w"
    using assms(3) by (simp add: filter_absent table_names_def)
  have m: "map_of (default_tables w @ [(''hollow_processed'', hp_table d)]) ''hollow_processed''
      = Some (hp_table d)"
    using map_of_created[of "''hollow_processed''" "default_tables w" "hp_table d"] f by simp
  show ?thesis
    using assms f m
    by (simp add: store_hollow_processed_def and_then_def printSchema_def write_csv_overwrite
        sql_show_databases sql_show_tables sql_describe show_frame_def toPandas_def
        getitem_tableName py_print_def saveAsTable_overwrite_hp table_names_def done_with_def
        export_path_def hp_export_def hp_table_def tr_defs log_def)
qed

subsection \<open>The eight outcomes of a run\<close>

lemma run_no_engine:
  "\<not> engine_reachable w \<Longrightarrow>
   run w = (Inl SessionError, w\<lparr>trace := tr_session (environ w ''STORAGE'')\<rparr>)"
  by (simp add: run_def main_def and_then_def load_no_engine)

lemma run_unset:
  "engine_reachable w \<Longrightarrow> environ w ''STORAGE'' = None \<Longrightarrow>
   run w = (Inl (KeyError ''STORAGE''),
            w\<lparr>trace := tr_session None @ [EnvLookup ''STORAGE'']\<rparr>)"
  by (simp add: run_def main_def and_then_def load_unset)

lemma run_missing:
  "engine_reachable w \<Longrightarrow> environ w ''STORAGE'' = Some s \<Longrightarrow>
   remote_files w (source_path s) = None \<Longrightarrow>
   run w = (Inl (PathNotFound (source_path s)), w\<lparr>trace := tr_load s\<rparr>)"
  by (simp add: run_def main_def and_then_def load_missing)

lemma run_unwritable:
  "engine_reachable w \<Longrightarrow> environ w ''STORAGE'' = Some s \<Longrightarrow>
   remote_files w (source_path s) = Some text \<Longrightarrow> \<not> local_writable w \<Longrightarrow>
   run w = (Inl (PermissionDenied export_path),
            w\<lparr>trace := tr_export s (hp_dataset w text)\<rparr>)"
  by (simp add: run_def main_def and_then_def load_ok store_unwritable tr_export_def
      hp_dataset_def)

lemma run_unreadable:
  "engine_reachable w \<Longrightarrow> environ w ''STORAGE'' = Some s \<Longrightarrow>
   remote_files w (source_path s) = Some text \<Longrightarrow> local_writable w \<Longrightarrow>
   \<not> catalog_readable w \<Longrightarrow>
   run w = (Inl CatalogAccessDenied,
      w\<lparr>trace := tr_export s (hp_dataset w text) @ [Sql ''show databases''],
        local_dirs := (local_dirs w)(export_path \<mapsto> [hp_export (hp_dataset w text)])\<rparr>)"
  by (simp add: run_def main_def and_then_def load_ok store_unreadable tr_export_def
      hp_dataset_def)

lemma run_present:
  "engine_reachable w \<Longrightarrow> environ w ''STORAGE'' = Some s \<Longrightarrow>
   remote_files w (source_path s) = Some text \<Longrightarrow> local_writable w \<Longrightarrow>
   catalog_readable w \<Longrightarrow> ''hollow_processed'' \<in> set (table_names w) \<Longrightarrow>
   run w = (Inr (),
      w\<lparr>trace := tr_listing s (hp_dataset w text) (default_tables w) @ tr_describe,
        local_dirs := (local_dirs w)(export_path \<mapsto> [hp_export (hp_dataset w text)])\<rparr>)"
  by (simp add: run_def main_def and_then_def load_ok store_present tr_export_def
      tr_listing_def hp_dataset_def table_names_def)

lemma run_uncreatable:
  "engine_reachable w \<Longrightarrow> environ w ''STORAGE'' = Some s \<Longrightarrow>
   remote_files w (source_path s) = Some text \<Longrightarrow> local_writable w \<Longrightarrow>
   catalog_readable w \<Longrightarrow> ''hollow_processed'' \<notin> set (table_names w) \<Longrightarrow>
   \<not> catalog_writable w \<Longrightarrow>
   run w = (Inl CatalogAccessDenied,
      w\<lparr>trace := tr_listing s (hp_dataset w text) (default_tables w) @ tr_create,
        local_dirs := (local_dirs w)(export_path \<mapsto> [hp_export (hp_dataset w text)])\<rparr>)"
  by (simp add: run_def main_def and_then_def load_ok store_uncreatable tr_export_def
      tr_listing_def hp_dataset_def table_names_def)

lemma run_absent:
  "engine_reachable w \<Longrightarrow> environ w ''STORAGE'' = Some s \<Longrightarrow>
   remote_files w (source_path s) = Some text \<Longrightarrow> local_writable w \<Longrightarrow>
   catalog_readable w \<Longrightarrow> ''hollow_processed'' \<notin> set (table_names w) \<Longrightarrow>
   catalog_writable w \<Longrightarrow>
   run w = (Inr (),
      w\<lparr>trace := tr_listing s (hp_dataset w text) (default_tables w) @ tr_create @ tr_describe,
        local_dirs := (local_dirs w)(export_path \<mapsto> [hp_export (hp_dataset w text)]),
        default_tables :=
          default_tables w @ [(''hollow_processed'', hp_table (hp_dataset w text))]\<rparr>)"
  by (simp add: run_def main_def and_then_def load_ok store_absent tr_export_def
      tr_listing_def hp_dataset_def table_names_def)

text \<open>Every world falls under exactly one of the eight.\<close>

lemma run_cases:
  obtains
    (no_engine) "\<not> engine_reachable w"
  | (unset) "engine_reachable w" "environ w ''STORAGE'' = None"
  | (missing) s where "engine_reachable w" "environ w ''STORAGE'' = Some s"
      "remote_files w (source_path s) = None"
  | (unwritable) s src where "engine_reachable w" "environ w ''STORAGE'' = Some s"
      "remote_files w (source_path s) = Some src" "\<not> local_writable w"
  | (unreadable) s src where "engine_reachable w" "environ w ''STORAGE'' = Some s"
      "remote_files w (source_path s) = Some src" "local_writable w" "\<not> catalog_readable w"
  | (present) s src where "engine_reachable w" "environ w ''STORAGE'' = Some s"
      "remote_files w (source_path s) = Some src" "local_writable w" "catalog_readable w"
      "''hollow_processed'' \<in> set (table_names w)"
  | (uncreatable) s src where "engine_reachable w" "environ w ''STORAGE'' = Some s"
      "remote_files w (source_path s) = Some src" "local_writable w" "catalog_readable w"
      "''hollow_processed'' \<notin> set (table_names w)" "\<not> catalog_writable w"
  | (absent) s src where "engine_reachable w" "environ w ''STORAGE'' = Some s"
      "remote_files w (source_path s) = Some src" "local_writable w" "catalog_readable w"
      "''hollow_processed'' \<notin> set (table_names w)" "catalog_writable w"
proof (cases "engine_reachable w")
  case False
  then show ?thesis by (rule no_engine)
next
  case eng: True
  show ?thesis
  proof (cases "environ w ''STORAGE''")
    case None
    with eng show ?thesis by (rule unset)
  next
    case (Some s)
    show ?thesis
    proof (cases "remote_files w (source_path s)")
      case None
      with eng Some show ?thesis by (rule missing)
    next
      case found: (Some src)
      show ?thesis
        using eng Some found unwritable unreadable present uncreatable absent by blast
    qed
  qed
qed

text \<open>What no run touches.\<close>

lemma run_frame:
  "environ (snd (run w)) = environ w \<and> engine_reachable (snd (run w)) = engine_reachable w
   \<and> remote_files (snd (run w)) = remote_files w \<and> extra_splits (snd (run w)) = extra_splits w
   \<and> local_writable (snd (run w)) = local_writable w
   \<and> catalog_readable (snd (run w)) = catalog_readable w
   \<and> catalog_writable (snd (run w)) = catalog_writable w"
proof (cases w rule: run_cases)
  case no_engine
  then show ?thesis by (simp add: run_no_engine)
next
  case unset
  then show ?thesis by (simp add: run_unset)
next
  case (missing s)
  then show ?thesis by (simp add: run_missing)
next
  case (unwritable s src)
  then show ?thesis by (simp add: run_unwritable)
next
  case (unreadable s src)
  then show ?thesis by (simp add: run_unreadable)
next
  case (present s src)
  then show ?thesis by (simp add: run_present)
next
  case (uncreatable s src)
  then show ?thesis by (simp add: run_uncreatable)
next
  case (absent s src)
  then show ?thesis by (simp add: run_absent)
qed

subsection \<open>Facts shared by the properties\<close>

lemma hp_dataset_cong: "extra_splits w' = extra_splits w \<Longrightarrow> hp_dataset w' = hp_dataset w"
  by (rule ext) (simp add: hp_dataset_def)

lemma filter_none: "n \<notin> fst ` set ts \<Longrightarrow> filter (\<lambda>p. fst p = n) ts = []"
  by (induction ts) auto

lemma filter_is_catalog_write_simps:
  "filter is_catalog_write (tr_session cfg) = []"
  "filter is_catalog_write (tr_load s) = []"
  "filter is_catalog_write (tr_export s d) = []"
  "filter is_catalog_write (tr_listing s d ts) = []"
  "filter is_catalog_write tr_create = [TableSave ''default.hollow_processed'' ''parquet'' ''overwrite'']"
  "filter is_catalog_write tr_describe = []"
  by (simp_all add: tr_defs)

lemma filter_is_local_write_simps:
  "filter is_local_write (tr_session cfg) = []"
  "filter is_local_write (tr_load s) = []"
  "filter is_local_write (tr_export s d) = [CsvWrite export_path ''overwrite'' True]"
  "filter is_local_write (tr_listing s d ts) = [CsvWrite export_path ''overwrite'' True]"
  "filter is_local_write tr_create = []"
  "filter is_local_write tr_describe = []"
  by (simp_all add: tr_defs)

lemma run_exports:
  assumes "engine_reachable w" and "environ w ''STORAGE'' = Some s"
    and "remote_files w (source_path s) = Some src" and "local_writable w"
  shows "local_dirs (snd (run w)) export_path = Some [hp_export (hp_dataset w src)]
     \<and> filter is_local_write (trace (snd (run w))) = [CsvWrite export_path ''overwrite'' True]"
proof (cases "catalog_readable w")
  case False
  with assms show ?thesis by (simp add: run_unreadable filter_is_local_write_simps)
next
  case readable: True
  show ?thesis
  proof (cases "''hollow_processed'' \<in> set (table_names w)")
    case True
    with assms readable show ?thesis by (simp add: run_present filter_is_local_write_simps)
  next
    case absent: False
    show ?thesis
    proof (cases "catalog_writable w")
      case True
      with assms readable absent show ?thesis
        by (simp add: run_absent filter_is_local_write_simps)
    next
      case False
      with assms readable absent show ?thesis
        by (simp add: run_uncreatable filter_is_local_write_simps)
    qed
  qed
qed

lemma hp_export_explicit:
  "hp_export (hp_dataset w src) =
     \<lparr>exp_data =
        \<lparr>columns = columns (parse_csv True (CHR '','') ''NA'' (extra_splits w) src),
         cells = cells (parse_csv True (CHR '','') ''NA'' (extra_splits w) src),
         partitions = 1\<rparr>,
      exp_header = True\<rparr>"
  by (simp add: hp_export_def hp_dataset_def coalesce_def parse_csv_def Let_def)

lemma parse_csv1:
  "parse_csv True (CHR '','') ''NA'' n csv1 =
     \<lparr>columns = [(''title'', StringType), (''year'', StringType)],
      cells = [[Some ''Stalker'', Some ''1979'']],
      partitions = Suc n\<rparr>"
  by (simp add: parse_csv_def csv_lines_def csv1_def parse_row_def parse_cell_def Let_def)

lemma split_on_nonempty: "split_on c s \<noteq> []"
  by (induction s) (auto split: list.splits)

lemma split_on_no_sep: "f \<in> set (split_on c s) \<Longrightarrow> c \<notin> set f"
  by (induction s arbitrary: f) (auto split: list.splits if_splits)

text \<open>The example worlds, field by field.\<close>

lemma world_fresh_facts:
  "engine_reachable world_fresh"
  "environ world_fresh ''STORAGE'' = Some ''s3a://lake''"
  "remote_files world_fresh (source_path ''s3a://lake'') = Some csv0"
  "local_writable world_fresh"
  "catalog_readable world_fresh"
  "catalog_writable world_fresh"
  "''hollow_processed'' \<notin> set (table_names world_fresh)"
  by (simp_all add: world_fresh_def source_path_def table_names_def)

lemma world_bootstrapped_facts:
  "engine_reachable world_bootstrapped"
  "environ world_bootstrapped ''STORAGE'' = Some ''s3a://lake''"
  "remote_files world_bootstrapped (source_path ''s3a://lake'') = Some csv0"
  "local_writable world_bootstrapped"
  "catalog_readable world_bootstrapped"
  "''hollow_processed'' \<in> set (table_names world_bootstrapped)"
  by (simp_all add: world_bootstrapped_def world_fresh_def source_path_def table_names_def)

lemma world_locked_facts:
  "engine_reachable world_locked"
  "environ world_locked ''STORAGE'' = Some ''s3a://lake''"
  "remote_files world_locked (source_path ''s3a://lake'') = Some csv0"
  "local_writable world_locked"
  "catalog_readable world_locked"
  "''hollow_processed'' \<notin> set (table_names world_locked)"
  "\<not> catalog_writable world_locked"
  by (simp_all add: world_locked_def world_fresh_def source_path_def table_names_def)

lemma world_unset_facts:
  "environ world_unset ''STORAGE'' = None"
  "engine_reachable world_unset"
  by (simp_all add: world_unset_def world_fresh_def)


lemma world_offline_facts:
  "environ world_offline ''STORAGE'' = None"
  "\<not> engine_reachable world_offline"
  by (simp_all add: world_offline_def world_unset_def world_fresh_def)

lemma source_records_csv0:
  "source_records csv0 = [[''Alien'', ''1979''], [''Solaris'', ''NA'']]"
  by (simp add: source_records_def csv_lines_def csv0_def)

section \<open>The properties\<close>

text \<open>
  C4. When \<^verbatim>\<open>STORAGE\<close> is unset (and the engine can be reached), the run first reads the
  variable with the non-raising \<^verbatim>\<open>getenv\<close>, acquires the session configured with the
  absent value, and only then raises the lookup error at the bracketed access: the timeline
  of the run is exactly these three events, and nothing else of the world changes.
\<close>

theorem C4_session_before_lookup:
  assumes "environ w ''STORAGE'' = None" and "engine_reachable w"
  shows "run w =
    (Inl (KeyError ''STORAGE''),
     w\<lparr>trace := [EnvGet ''STORAGE'',
                 SessionGetOrCreate ''PythonSQL'' ''spark.yarn.access.hadoopFileSystems'' None,
                 EnvLookup ''STORAGE'']\<rparr>)"
  using assms by (simp add: run_unset tr_session_def)

theorem C4_session_before_lookup_witness:
  "environ world_unset ''STORAGE'' = None \<and> engine_reachable world_unset
   \<and> fst (run world_unset) = Inl (KeyError ''STORAGE'')
   \<and> trace (snd (run world_unset)) =
       [EnvGet ''STORAGE'',
        SessionGetOrCreate ''PythonSQL'' ''spark.yarn.access.hadoopFileSystems'' None,
        EnvLookup ''STORAGE'']"
proof -
  have h1: "environ world_unset ''STORAGE'' = None"
    by (simp add: world_unset_def world_fresh_def)
  have h2: "engine_reachable world_unset"
    by (simp add: world_unset_def world_fresh_def)
  show ?thesis
    using h1 h2 C4_session_before_lookup [OF h1 h2] by simp
qed

text \<open>
  C1. Two consecutive runs over an unchanged source file, in a world where every step
  can succeed and the name \<open>hollow_processed\<close> is absent from the table list of the
  default namespace: both runs succeed; the first performs exactly one catalog write, the
  creation of \<open>default.hollow_processed\<close> in parquet format and overwrite mode, which
  appends the table holding the loaded dataset; the second performs no catalog write and
  leaves the table list as the first left it; exactly one table of that name exists
  after both.
\<close>

theorem C1_catalog_created_once:
  assumes "engine_reachable w" and "environ w ''STORAGE'' = Some s"
    and "remote_files w (source_path s) = Some src" and "local_writable w"
    and "catalog_readable w" and "catalog_writable w"
    and "''hollow_processed'' \<notin> set (table_names w)"
  shows "fst (run w) = Inr () \<and> fst (run (snd (run w))) = Inr ()
    \<and> default_tables (snd (run w)) =
        default_tables w @ [(''hollow_processed'', \<lparr>tbl_format = ''parquet'', tbl_data = hp_dataset w src\<rparr>)]
    \<and> filter is_catalog_write (trace (snd (run w))) =
        [TableSave ''default.hollow_processed'' ''parquet'' ''overwrite'']
    \<and> filter is_catalog_write (trace (snd (run (snd (run w))))) = []
    \<and> default_tables (snd (run (snd (run w)))) = default_tables (snd (run w))
    \<and> length (filter (\<lambda>p. fst p = ''hollow_processed'') (default_tables (snd (run (snd (run w)))))) = 1"
proof -
  define w1 where "w1 = snd (run w)"
  have r1: "run w = (Inr (),
      w\<lparr>trace := tr_listing s (hp_dataset w src) (default_tables w) @ tr_create @ tr_describe,
        local_dirs := (local_dirs w)(export_path \<mapsto> [hp_export (hp_dataset w src)]),
        default_tables :=
          default_tables w @ [(''hollow_processed'', hp_table (hp_dataset w src))]\<rparr>)"
    using assms by (simp add: run_absent)
  have t1: "default_tables w1 = default_tables w @ [(''hollow_processed'', hp_table (hp_dataset w src))]"
    by (simp add: w1_def r1)
  have p1: "engine_reachable w1" "environ w1 ''STORAGE'' = Some s"
    "remote_files w1 (source_path s) = Some src" "local_writable w1" "catalog_readable w1"
    using assms by (simp_all add: w1_def r1)
  have n1: "''hollow_processed'' \<in> set (table_names w1)"
    by (simp add: table_names_def t1)
  have r2: "run w1 = (Inr (),
      w1\<lparr>trace := tr_listing s (hp_dataset w1 src) (default_tables w1) @ tr_describe,
        local_dirs := (local_dirs w1)(export_path \<mapsto> [hp_export (hp_dataset w1 src)])\<rparr>)"
    using p1 n1 by (simp add: run_present)
  have c: "filter (\<lambda>p. fst p = ''hollow_processed'') (default_tables w) = []"
    using assms(7) by (simp add: filter_none table_names_def)
  have "fst (run w) = Inr ()" by (simp add: r1)
  moreover have "fst (run w1) = Inr ()" by (simp add: r2)
  moreover have "filter is_catalog_write (trace (snd (run w))) =
        [TableSave ''default.hollow_processed'' ''parquet'' ''overwrite'']"
    by (simp add: r1 filter_is_catalog_write_simps)
  moreover have "filter is_catalog_write (trace (snd (run w1))) = []"
    by (simp add: r2 filter_is_catalog_write_simps)
  moreover have "default_tables (snd (run w1)) = default_tables w1"
    by (simp add: r2)
  moreover have "length (filter (\<lambda>p. fst p = ''hollow_processed'') (default_tables (snd (run w1)))) = 1"
    by (simp add: r2 t1 c)
  ultimately show ?thesis
    using t1 by (simp add: w1_def hp_table_def)
qed

theorem C1_catalog_created_once_witness:
  "engine_reachable world_fresh \<and> environ world_fresh ''STORAGE'' = Some ''s3a://lake''
   \<and> remote_files world_fresh (source_path ''s3a://lake'') = Some csv0
   \<and> local_writable world_fresh \<and> catalog_readable world_fresh \<and> catalog_writable world_fresh
   \<and> ''hollow_processed'' \<notin> set (table_names world_fresh)
   \<and> fst (run world_fresh) = Inr () \<and> fst (run (snd (run world_fresh))) = Inr ()
   \<and> filter is_catalog_write (trace (snd (run (snd (run world_fresh))))) = []
   \<and> length (filter (\<lambda>p. fst p = ''hollow_processed'')
        (default_tables (snd (run (snd (run world_fresh)))))) = 1"
  using world_fresh_facts C1_catalog_created_once [OF world_fresh_facts(1,2,3,4,5,6,7)]
  by blast

text \<open>
  C3. Whenever \<^verbatim>\<open>STORAGE\<close> is unset the run fails; the failure is the lookup error
  \<open>KeyError ''STORAGE''\<close> whenever the session can be acquired (the precondition of the
  contract); and in every case the run has attempted no read of the source CSV and no
  write to the local filesystem or to the catalog, all three being left as found.
\<close>

theorem C3_unset_storage_fails_first:
  assumes "environ w ''STORAGE'' = None"
  shows "(\<exists>e. fst (run w) = Inl e)
     \<and> (engine_reachable w \<longrightarrow> fst (run w) = Inl (KeyError ''STORAGE''))
     \<and> filter (\<lambda>e. is_csv_read e \<or> is_local_write e \<or> is_catalog_write e) (trace (snd (run w))) = []
     \<and> remote_files (snd (run w)) = remote_files w
     \<and> local_dirs (snd (run w)) = local_dirs w
     \<and> default_tables (snd (run w)) = default_tables w"
proof (cases "engine_reachable w")
  case True
  with assms show ?thesis by (simp add: run_unset tr_session_def)
next
  case False
  then show ?thesis by (simp add: run_no_engine tr_session_def)
qed

theorem C3_unset_storage_fails_first_witness:
  "environ world_unset ''STORAGE'' = None
   \<and> fst (run world_unset) = Inl (KeyError ''STORAGE'')
   \<and> filter (\<lambda>e. is_csv_read e \<or> is_local_write e \<or> is_catalog_write e)
        (trace (snd (run world_unset))) = []
   \<and> local_dirs (snd (run world_unset)) = local_dirs world_unset
   \<and> default_tables (snd (run world_unset)) = default_tables world_unset"
  using world_unset_facts C3_unset_storage_fails_first [OF world_unset_facts(1)]
  by simp


text \<open>
  C3, counterexample to the lookup error in every run with \<^verbatim>\<open>STORAGE\<close> unset: when the
  engine is out of reach the run ends at the session acquisition of line 23, before the
  raising lookup of line 31 is reached.
\<close>

theorem C3_session_error_counterexample:
  "environ world_offline ''STORAGE'' = None
   \<and> fst (run world_offline) = Inl SessionError
   \<and> fst (run world_offline) \<noteq> Inl (KeyError ''STORAGE'')"
  using world_offline_facts by (simp add: run_no_engine)

text \<open>
  C5. When a table named \<open>hollow_processed\<close> is already listed in the default namespace,
  whatever its format, schema and contents, the run performs no catalog write and leaves
  the table list unchanged; and when the steps up to the export can succeed it still
  writes the local export of the freshly loaded dataset (and succeeds as a whole when
  the catalog can be queried).
\<close>

theorem C5_skip_on_exists:
  assumes "''hollow_processed'' \<in> set (table_names w)"
  shows "filter is_catalog_write (trace (snd (run w))) = []
     \<and> default_tables (snd (run w)) = default_tables w
     \<and> (\<forall>s src. engine_reachable w \<and> environ w ''STORAGE'' = Some s
           \<and> remote_files w (source_path s) = Some src \<and> local_writable w \<longrightarrow>
         local_dirs (snd (run w)) export_path = Some [hp_export (hp_dataset w src)]
         \<and> filter is_local_write (trace (snd (run w))) = [CsvWrite export_path ''overwrite'' True]
         \<and> (catalog_readable w \<longrightarrow> fst (run w) = Inr ()))"
proof (cases w rule: run_cases)
  case no_engine
  then show ?thesis by (simp add: run_no_engine filter_is_catalog_write_simps)
next
  case unset
  then show ?thesis by (simp add: run_unset filter_is_catalog_write_simps)
next
  case (missing s)
  then show ?thesis by (simp add: run_missing filter_is_catalog_write_simps)
next
  case (unwritable s src)
  then show ?thesis by (simp add: run_unwritable filter_is_catalog_write_simps)
next
  case (unreadable s src)
  then show ?thesis
    by (simp add: run_unreadable filter_is_catalog_write_simps filter_is_local_write_simps)
next
  case (present s src)
  then show ?thesis
    by (simp add: run_present filter_is_catalog_write_simps filter_is_local_write_simps)
next
  case (uncreatable s src)
  with assms show ?thesis by simp
next
  case (absent s src)
  with assms show ?thesis by simp
qed

theorem C5_skip_on_exists_witness:
  "''hollow_processed'' \<in> set (table_names world_bootstrapped)
   \<and> engine_reachable world_bootstrapped
   \<and> environ world_bootstrapped ''STORAGE'' = Some ''s3a://lake''
   \<and> remote_files world_bootstrapped (source_path ''s3a://lake'') = Some csv0
   \<and> local_writable world_bootstrapped \<and> catalog_readable world_bootstrapped
   \<and> fst (run world_bootstrapped) = Inr ()
   \<and> default_tables (snd (run world_bootstrapped)) = [(''hollow_processed'', other_table)]
   \<and> filter is_catalog_write (trace (snd (run world_bootstrapped))) = []
   \<and> local_dirs (snd (run world_bootstrapped)) export_path
        = Some [hp_export (hp_dataset world_bootstrapped csv0)]"
proof -
  have t: "default_tables world_bootstrapped = [(''hollow_processed'', other_table)]"
    by (simp add: world_bootstrapped_def)
  show ?thesis
    using world_bootstrapped_facts t
      C5_skip_on_exists [OF world_bootstrapped_facts(6)]
    by simp
qed

text \<open>
  C6. The load reads \<open>STORAGE\<close> followed by
  \<^verbatim>\<open>/datalake/data/content_metadata/hollow_processed.csv\<close> with the header option on,
  the comma as separator and \<open>NA\<close> as null token; the loaded dataset has one row per
  data line of the source, and each of its cells is null exactly where the field of the
  source is the literal \<open>NA\<close>, and the field itself otherwise.
\<close>

theorem C6_na_read_as_null:
  assumes "engine_reachable w" and "environ w ''STORAGE'' = Some s"
    and "remote_files w (s @ ''/datalake/data/content_metadata/hollow_processed.csv'') = Some src"
  shows "\<exists>spark d w'.
       load_hollow_processed w = (Inr (spark, d), w')
     \<and> last (trace w') =
         CsvRead (s @ ''/datalake/data/content_metadata/hollow_processed.csv'') True (CHR '','') ''NA''
     \<and> length (cells d) = length (source_records src)
     \<and> (\<forall>i j. i < length (source_records src) \<and> j < length (source_records src ! i) \<longrightarrow>
           length (cells d ! i) = length (source_records src ! i)
         \<and> (source_records src ! i ! j = ''NA'' \<longrightarrow> cells d ! i ! j = None)
         \<and> (source_records src ! i ! j \<noteq> ''NA'' \<longrightarrow>
              cells d ! i ! j = Some (source_records src ! i ! j)))"
proof -
  let ?d = "hp_dataset w src"
  have f: "remote_files w (source_path s) = Some src"
    using assms(3) by (simp add: source_path_def)
  have l: "load_hollow_processed w =
      (Inr (hp_session (Some s), ?d), w\<lparr>trace := trace w @ tr_load s\<rparr>)"
    using assms(1,2) f by (rule load_ok)
  have t: "last (trace (w\<lparr>trace := trace w @ tr_load s\<rparr>)) =
      CsvRead (s @ ''/datalake/data/content_metadata/hollow_processed.csv'') True (CHR '','') ''NA''"
    by (simp add: tr_defs source_path_def)
  have c: "cells ?d = map (map (parse_cell ''NA'')) (source_records src)"
    by (simp add: hp_dataset_def parse_csv_def Let_def source_records_def parse_row_def)
  have n: "length (cells ?d) = length (source_records src)"
    by (simp add: c)
  have q: "\<forall>i j. i < length (source_records src) \<and> j < length (source_records src ! i) \<longrightarrow>
           length (cells ?d ! i) = length (source_records src ! i)
         \<and> (source_records src ! i ! j = ''NA'' \<longrightarrow> cells ?d ! i ! j = None)
         \<and> (source_records src ! i ! j \<noteq> ''NA'' \<longrightarrow>
              cells ?d ! i ! j = Some (source_records src ! i ! j))"
    by (simp add: c parse_cell_def)
  from l t n q show ?thesis
    by blast
qed

theorem C6_na_read_as_null_witness:
  "engine_reachable world_fresh \<and> environ world_fresh ''STORAGE'' = Some ''s3a://lake''
   \<and> remote_files world_fresh
        (''s3a://lake'' @ ''/datalake/data/content_metadata/hollow_processed.csv'') = Some csv0
   \<and> source_records csv0 ! 1 ! 1 = ''NA''
   \<and> (\<exists>spark d w'. load_hollow_processed world_fresh = (Inr (spark, d), w')
         \<and> cells d ! 1 ! 1 = None \<and> cells d ! 0 ! 1 = Some ''1979'')"
proof -
  have h: "engine_reachable world_fresh" "environ world_fresh ''STORAGE'' = Some ''s3a://lake''"
    "remote_files world_fresh
        (''s3a://lake'' @ ''/datalake/data/content_metadata/hollow_processed.csv'') = Some csv0"
    by (simp_all add: world_fresh_def)
  obtain spark d w' where l: "load_hollow_processed world_fresh = (Inr (spark, d), w')"
    and c: "\<forall>i j. i < length (source_records csv0) \<and> j < length (source_records csv0 ! i) \<longrightarrow>
           length (cells d ! i) = length (source_records csv0 ! i)
         \<and> (source_records csv0 ! i ! j = ''NA'' \<longrightarrow> cells d ! i ! j = None)
         \<and> (source_records csv0 ! i ! j \<noteq> ''NA'' \<longrightarrow>
              cells d ! i ! j = Some (source_records csv0 ! i ! j))"
    using C6_na_read_as_null [OF h] by blast
  have "cells d ! 1 ! 1 = None"
    using c [rule_format, of 1 1] by (simp add: source_records_csv0)
  moreover have "cells d ! 0 ! 1 = Some ''1979''"
    using c [rule_format, of 0 1] by (simp add: source_records_csv0)
  ultimately show ?thesis
    using h l by (simp add: source_records_csv0)
qed

text \<open>
  C7. After any positive number of runs, each over the source text found at that run,
  whatever the state of the catalog and whatever the export directory held before, the
  directory \<^verbatim>\<open>file:/home/cdsw/raw/hollow-processed/\<close> holds exactly one export: it has
  the columns and the cells of the dataset that a run loads from the text of the last
  run (one row per data line of that text), one partition and a header; and the last run
  wrote it with one CSV write in overwrite mode.
\<close>

theorem C7_export_overwritten:
  assumes "engine_reachable w" and "environ w ''STORAGE'' = Some s" and "local_writable w"
    and "texts \<noteq> []"
  shows "\<exists>spark d w'.
       load_hollow_processed (put_source s (last texts) w) = (Inr (spark, d), w')
     \<and> d = parse_csv True (CHR '','') ''NA'' (extra_splits w) (last texts)
     \<and> cells d = map (map (parse_cell ''NA'')) (source_records (last texts))
     \<and> local_dirs (run_seq s texts w) export_path =
         Some [\<lparr>exp_data = \<lparr>columns = columns d, cells = cells d, partitions = 1\<rparr>,
                 exp_header = True\<rparr>]
     \<and> filter is_local_write (trace (run_seq s texts w)) = [CsvWrite export_path ''overwrite'' True]"
proof -
  let ?d = "parse_csv True (CHR '','') ''NA'' (extra_splits w) (last texts)"
  have dirs: "local_dirs (run_seq s texts w) export_path = Some [hp_export (hp_dataset w (last texts))]
     \<and> filter is_local_write (trace (run_seq s texts w)) = [CsvWrite export_path ''overwrite'' True]"
    using assms
  proof (induction texts arbitrary: w)
    case Nil
    then show ?case by simp
  next
    case (Cons t ts)
    let ?w0 = "put_source s t w"
    let ?w1 = "snd (run ?w0)"
    have p0: "engine_reachable ?w0" "environ ?w0 ''STORAGE'' = Some s"
      "remote_files ?w0 (source_path s) = Some t" "local_writable ?w0"
      "extra_splits ?w0 = extra_splits w"
      using Cons.prems by (simp_all add: put_source_def)
    have p1: "engine_reachable ?w1" "environ ?w1 ''STORAGE'' = Some s" "local_writable ?w1"
      "extra_splits ?w1 = extra_splits w"
      using p0 run_frame[of ?w0] by simp_all
    show ?case
    proof (cases "ts = []")
      case True
      then show ?thesis
        using run_exports[OF p0(1-4)] hp_dataset_cong[OF p0(5)] by simp
    next
      case False
      then show ?thesis
        using Cons.IH[OF p1(1-3) False] hp_dataset_cong[OF p1(4)] by simp
    qed
  qed
  let ?wl = "put_source s (last texts) w"
  have q: "engine_reachable ?wl" "environ ?wl ''STORAGE'' = Some s"
    "remote_files ?wl (source_path s) = Some (last texts)"
    using assms by (simp_all add: put_source_def)
  have l: "load_hollow_processed ?wl =
      (Inr (hp_session (Some s), ?d), ?wl\<lparr>trace := trace ?wl @ tr_load s\<rparr>)"
    using load_ok[OF q] by (simp add: hp_dataset_def put_source_def)
  have n: "cells ?d = map (map (parse_cell ''NA'')) (source_records (last texts))"
    by (simp add: parse_csv_def Let_def source_records_def parse_row_def)
  have e: "local_dirs (run_seq s texts w) export_path =
         Some [\<lparr>exp_data = \<lparr>columns = columns ?d, cells = cells ?d, partitions = 1\<rparr>,
                 exp_header = True\<rparr>]"
    using dirs by (simp add: hp_export_explicit)
  from l n e dirs show ?thesis
    by blast
qed

theorem C7_export_overwritten_witness:
  "engine_reachable world_bootstrapped \<and> environ world_bootstrapped ''STORAGE'' = Some ''s3a://lake''
   \<and> local_writable world_bootstrapped \<and> [csv0, csv1, csv1] \<noteq> []
   \<and> local_dirs (run_seq ''s3a://lake'' [csv0, csv1, csv1] world_bootstrapped) export_path
        = Some [\<lparr>exp_data = \<lparr>columns = [(''title'', StringType), (''year'', StringType)],
                              cells = [[Some ''Stalker'', Some ''1979'']],
                              partitions = 1\<rparr>,
                  exp_header = True\<rparr>]"
proof -
  have n: "[csv0, csv1, csv1] \<noteq> []" by simp
  show ?thesis
    using world_bootstrapped_facts
      C7_export_overwritten [OF world_bootstrapped_facts(1,2,4) n]
    by (auto simp: parse_csv1)
qed

text \<open>
  C8. The dataset returned by the read is the one both writes receive: the printed schema
  is its column list, the local export holds it coalesced to one partition, which changes
  neither columns nor cells, and the catalog table, when the run creates it, holds it as
  it was read.
\<close>

theorem C8_schema_stable:
  assumes "engine_reachable w" and "environ w ''STORAGE'' = Some s"
    and "remote_files w (source_path s) = Some src" and "local_writable w"
  shows "\<exists>spark d w1.
       load_hollow_processed (w\<lparr>trace := []\<rparr>) = (Inr (spark, d), w1)
     \<and> PrintedSchema (columns d) \<in> set (stdout (snd (run w)))
     \<and> local_dirs (snd (run w)) export_path = Some [\<lparr>exp_data = coalesce 1 d, exp_header = True\<rparr>]
     \<and> columns (coalesce 1 d) = columns d \<and> cells (coalesce 1 d) = cells d
     \<and> (catalog_readable w \<and> catalog_writable w \<and> ''hollow_processed'' \<notin> set (table_names w) \<longrightarrow>
          map_of (default_tables (snd (run w))) ''hollow_processed''
            = Some \<lparr>tbl_format = ''parquet'', tbl_data = d\<rparr>)"
proof -
  let ?d = "hp_dataset w src"
  have l: "load_hollow_processed (w\<lparr>trace := []\<rparr>) =
      (Inr (hp_session (Some s), ?d), w\<lparr>trace := tr_load s\<rparr>)"
    using assms by (simp add: load_ok hp_dataset_def)
  have e: "local_dirs (snd (run w)) export_path = Some [\<lparr>exp_data = coalesce 1 ?d, exp_header = True\<rparr>]"
    using run_exports[OF assms] by (simp add: hp_export_def)
  have c: "columns (coalesce 1 ?d) = columns ?d \<and> cells (coalesce 1 ?d) = cells ?d"
    by (simp add: coalesce_def)
  have p: "PrintedSchema (columns ?d) \<in> set (stdout (snd (run w)))"
  proof (cases w rule: run_cases)
    case no_engine
    with assms show ?thesis by simp
  next
    case unset
    with assms show ?thesis by simp
  next
    case (missing s')
    with assms show ?thesis by simp
  next
    case (unwritable s' src')
    with assms show ?thesis by simp
  next
    case (unreadable s' src')
    with assms show ?thesis by (simp add: run_unreadable stdout_def tr_defs)
  next
    case (present s' src')
    with assms show ?thesis by (simp add: run_present stdout_def tr_defs)
  next
    case (uncreatable s' src')
    with assms show ?thesis by (simp add: run_uncreatable stdout_def tr_defs)
  next
    case (absent s' src')
    with assms show ?thesis by (simp add: run_absent stdout_def tr_defs)
  qed
  have t: "map_of (default_tables (snd (run w))) ''hollow_processed''
            = Some \<lparr>tbl_format = ''parquet'', tbl_data = ?d\<rparr>"
    if "catalog_readable w" "catalog_writable w" "''hollow_processed'' \<notin> set (table_names w)"
  proof -
    have f: "filter (\<lambda>p. fst p \<noteq> ''hollow_processed'') (default_tables w) = default_tables w"
      using that(3) by (simp add: filter_absent table_names_def)
    show ?thesis
      using assms that map_of_created[of "''hollow_processed''" "default_tables w" "hp_table ?d"] f
      by (simp add: run_absent hp_table_def)
  qed
  show ?thesis
    using l e c p t by blast
qed

theorem C8_schema_stable_witness:
  "engine_reachable world_fresh \<and> environ world_fresh ''STORAGE'' = Some ''s3a://lake''
   \<and> remote_files world_fresh (source_path ''s3a://lake'') = Some csv0
   \<and> local_writable world_fresh \<and> catalog_readable world_fresh \<and> catalog_writable world_fresh
   \<and> ''hollow_processed'' \<notin> set (table_names world_fresh)
   \<and> (\<exists>spark d w1.
         load_hollow_processed (world_fresh\<lparr>trace := []\<rparr>) = (Inr (spark, d), w1)
       \<and> local_dirs (snd (run world_fresh)) export_path
           = Some [\<lparr>exp_data = coalesce 1 d, exp_header = True\<rparr>]
       \<and> columns (coalesce 1 d) = columns d
       \<and> map_of (default_tables (snd (run world_fresh))) ''hollow_processed''
           = Some \<lparr>tbl_format = ''parquet'', tbl_data = d\<rparr>)"
  using world_fresh_facts C8_schema_stable [OF world_fresh_facts(1,2,3,4)]
  by auto

text \<open>
  C9. A failing run stops where it fails: its timeline is a proper initial part of the
  timeline of a complete run. When the steps up to the local export succeed and the run
  still fails, it fails with the catalog's refusal at a catalog query or at the table
  creation, the local export stays in place, and the table list is as found.
\<close>

theorem C9_no_recovery:
  assumes "fst (run w) = Inl e"
  shows "strict_prefix (map stage_of (trace (snd (run w))))
           (stages (''hollow_processed'' \<in> set (table_names w)))
     \<and> (\<forall>s src. engine_reachable w \<and> environ w ''STORAGE'' = Some s
            \<and> remote_files w (source_path s) = Some src \<and> local_writable w \<longrightarrow>
          e = CatalogAccessDenied
          \<and> local_dirs (snd (run w)) export_path = Some [hp_export (hp_dataset w src)]
          \<and> default_tables (snd (run w)) = default_tables w
          \<and> stage_of (last (trace (snd (run w)))) \<in> {CatalogQuery, TableCreation})"
proof (cases w rule: run_cases)
  case no_engine
  then show ?thesis by (simp add: run_no_engine tr_defs stages_def strict_prefix_def)
next
  case unset
  then show ?thesis by (simp add: run_unset tr_defs stages_def strict_prefix_def)
next
  case (missing s)
  then show ?thesis by (simp add: run_missing tr_defs stages_def strict_prefix_def)
next
  case (unwritable s src)
  then show ?thesis by (simp add: run_unwritable tr_defs stages_def strict_prefix_def)
next
  case (unreadable s src)
  with assms show ?thesis by (simp add: run_unreadable tr_defs stages_def strict_prefix_def)
next
  case (present s src)
  with assms show ?thesis by (simp add: run_present)
next
  case (uncreatable s src)
  with assms show ?thesis by (simp add: run_uncreatable tr_defs stages_def strict_prefix_def)
next
  case (absent s src)
  with assms show ?thesis by (simp add: run_absent)
qed

theorem C9_no_recovery_witness:
  "fst (run world_locked) = Inl CatalogAccessDenied
   \<and> engine_reachable world_locked \<and> environ world_locked ''STORAGE'' = Some ''s3a://lake''
   \<and> remote_files world_locked (source_path ''s3a://lake'') = Some csv0
   \<and> local_writable world_locked
   \<and> local_dirs (snd (run world_locked)) export_path
        = Some [hp_export (hp_dataset world_locked csv0)]
   \<and> default_tables (snd (run world_locked)) = default_tables world_locked
   \<and> stage_of (last (trace (snd (run world_locked)))) \<in> {CatalogQuery, TableCreation}"
proof -
  have f: "fst (run world_locked) = Inl CatalogAccessDenied"
    using world_locked_facts by (simp add: run_uncreatable)
  show ?thesis
    using f world_locked_facts C9_no_recovery [OF f]
    by simp
qed



text \<open>
  C2. In the run that bootstraps the catalog from \<open>world_fresh\<close> the script succeeds, its
  last statement queries the formatted description of \<open>default.hollow_processed\<close>, and
  the printed output is the schema, the two listings and the line announcing the creation:
  the description of the table, which line 76 announces, is not among the printed items
  (line 77 collects it with \<^verbatim>\<open>toPandas()\<close> and neither prints nor shows it, unlike
  lines 45, 56 and 58).
\<close>

theorem C2_description_not_printed:
  "fst (run world_fresh) = Inr ()
   \<and> last (trace (snd (run world_fresh))) = Sql ''describe formatted default.hollow_processed''
   \<and> map_of (default_tables (snd (run world_fresh))) ''hollow_processed''
       = Some (hp_table (hp_dataset world_fresh csv0))
   \<and> stdout (snd (run world_fresh)) =
       [PrintedSchema (columns (hp_dataset world_fresh csv0)),
        PrintedFrame \<lparr>fcolumns = [''databaseName''], frows = [[''default'']]\<rparr>,
        PrintedFrame (tables_frame []),
        PrintedLine ''creating the hollow_processed database'']
   \<and> PrintedFrame (describe_frame (hp_table (hp_dataset world_fresh csv0)))
       \<notin> set (stdout (snd (run world_fresh)))"
proof -
  have t: "default_tables world_fresh = []"
    by (simp add: world_fresh_def)
  show ?thesis
    using world_fresh_facts t
    by (simp add: run_absent stdout_def tr_defs describe_frame_def tables_frame_def)
qed

end
